theory Spec2Isabelle
  imports Main "HOL-Library.Word" "HOL-Library.Multiset"
begin

section \<open>Data model of the note application (src/src/App.tsx)\<close>

text \<open>
  A JavaScript string is a sequence of 16-bit code units. Identifiers, texts,
  colour classes and date strings are all values of this type.
\<close>

type_synonym jsstring = "16 word list"

text \<open>
  The entity interfaces of App.tsx. The field \<open>createdAt\<close> is written by
  \<open>Date.now()\<close>, an integral number of milliseconds, and is an \<open>int\<close> here.
  The optional fields \<open>relatedHighlightId?\<close> and \<open>relatedResourceId?\<close> are options:
  \<open>None\<close> is the absent (undefined) field.
\<close>

record highlight =
  h_id :: jsstring
  h_text :: jsstring
  h_datetime :: jsstring
  h_color :: jsstring
  h_createdAt :: int

record todo =
  t_id :: jsstring
  t_text :: jsstring
  t_completed :: bool
  t_color :: jsstring
  t_createdAt :: int

record calendar_event =
  e_id :: jsstring
  e_title :: jsstring
  e_date :: jsstring
  e_time :: int
  e_color :: jsstring
  relatedHighlightId :: "jsstring option"
  relatedResourceId :: "jsstring option"
  e_createdAt :: int

datatype resource_type = Link | Note

record resource =
  r_id :: jsstring
  r_name :: jsstring
  r_type :: resource_type
  r_content :: jsstring
  r_color :: jsstring
  r_createdAt :: int

record ideapad_note =
  n_id :: jsstring
  n_text :: jsstring
  n_createdAt :: int
  n_color :: jsstring

text \<open>
  The five \<open>useState\<close> collections of the component \<open>NoteApp\<close>. Every
  operation below is the composition of the functional updates
  (\<open>setX(prev => ...)\<close>) that the source function enqueues.
\<close>

record app_state =
  highlights :: "highlight list"
  todos :: "todo list"
  events :: "calendar_event list"
  resources :: "resource list"
  ideapadNotes :: "ideapad_note list"

definition initial_state :: app_state where
  "initial_state =
     \<lparr>highlights = [], todos = [], events = [], resources = [], ideapadNotes = []\<rparr>"

section \<open>Sorting with a comparator\<close>

text \<open>
  \<open>Array.prototype.sort(cmp)\<close> is a stable sort: \<open>a\<close> is placed before \<open>b\<close>
  when \<open>cmp(a, b) < 0\<close>, after it when \<open>cmp(a, b) > 0\<close>, and elements that
  compare equal keep their order. For a consistent comparator this fixes the
  result, which is computed here by stable insertion.
\<close>

fun insertBy :: "('a \<Rightarrow> 'a \<Rightarrow> int) \<Rightarrow> 'a \<Rightarrow> 'a list \<Rightarrow> 'a list" where
  "insertBy cmp x [] = [x]"
| "insertBy cmp x (y # ys) =
     (if cmp x y \<le> 0 then x # y # ys else y # insertBy cmp x ys)"

fun sortBy :: "('a \<Rightarrow> 'a \<Rightarrow> int) \<Rightarrow> 'a list \<Rightarrow> 'a list" where
  "sortBy cmp [] = []"
| "sortBy cmp (x # xs) = insertBy cmp x (sortBy cmp xs)"

text \<open>
  JavaScript numbers that may be \<open>NaN\<close> are \<open>int option\<close> with \<open>None\<close> for
  \<open>NaN\<close>. \<open>subNaN\<close> is the subtraction \<open>a - b\<close>; \<open>orElse d y\<close> is \<open>d || y\<close>,
  which yields \<open>y\<close> when \<open>d\<close> is \<open>0\<close> or \<open>NaN\<close>.
\<close>

definition subNaN :: "int option \<Rightarrow> int option \<Rightarrow> int option" where
  "subNaN a b = (case (a, b) of (Some x, Some y) \<Rightarrow> Some (x - y) | _ \<Rightarrow> None)"

definition orElse :: "int option \<Rightarrow> int \<Rightarrow> int" where
  "orElse d y = (case d of Some v \<Rightarrow> (if v \<noteq> 0 then v else y) | None \<Rightarrow> y)"

definition Number :: "bool \<Rightarrow> int" where
  "Number b = (if b then 1 else 0)"

text \<open>The comparators passed to \<open>sort\<close> in App.tsx.\<close>

definition cmpHighlight :: "highlight \<Rightarrow> highlight \<Rightarrow> int" where
  "cmpHighlight a b = h_createdAt b - h_createdAt a"

definition cmpTodo :: "todo \<Rightarrow> todo \<Rightarrow> int" where
  "cmpTodo a b =
     orElse (Some (Number (t_completed a) - Number (t_completed b)))
            (t_createdAt b - t_createdAt a)"

text \<open>
  \<open>getTime d\<close> stands for \<open>new Date(d).getTime()\<close>, a function of the
  platform: the time value of the date string, \<open>None\<close> (\<open>NaN\<close>) for a string
  that is not a date.
\<close>

definition cmpEvent ::
  "(jsstring \<Rightarrow> int option) \<Rightarrow> calendar_event \<Rightarrow> calendar_event \<Rightarrow> int" where
  "cmpEvent getTime a b =
     orElse (subNaN (getTime (e_date a)) (getTime (e_date b)))
            (e_createdAt b - e_createdAt a)"

definition cmpResource :: "resource \<Rightarrow> resource \<Rightarrow> int" where
  "cmpResource a b = r_createdAt b - r_createdAt a"

definition cmpNote :: "ideapad_note \<Rightarrow> ideapad_note \<Rightarrow> int" where
  "cmpNote a b = n_createdAt b - n_createdAt a"

section \<open>CRUD operations\<close>

text \<open>
  \<open>generateId()\<close> and \<open>Date.now()\<close> read the clock and the random generator.
  Their results are the arguments \<open>newId\<close> and \<open>now\<close> of each add operation.
\<close>

definition addHighlight ::
  "jsstring \<Rightarrow> int \<Rightarrow> jsstring \<Rightarrow> jsstring \<Rightarrow> jsstring \<Rightarrow> app_state \<Rightarrow> app_state" where
  "addHighlight newId now text datetime color s =
     (let newHighlight = \<lparr>h_id = newId, h_text = text, h_datetime = datetime,
                           h_color = color, h_createdAt = now\<rparr>
      in s\<lparr>highlights := sortBy cmpHighlight (highlights s @ [newHighlight])\<rparr>)"

definition deleteHighlight :: "jsstring \<Rightarrow> app_state \<Rightarrow> app_state" where
  "deleteHighlight i s =
     s\<lparr>highlights := filter (\<lambda>h. h_id h \<noteq> i) (highlights s),
       events := filter (\<lambda>e. relatedHighlightId e \<noteq> Some i) (events s)\<rparr>"

definition addTodo :: "jsstring \<Rightarrow> int \<Rightarrow> jsstring \<Rightarrow> jsstring \<Rightarrow> app_state \<Rightarrow> app_state" where
  "addTodo newId now text color s =
     (let newTodo = \<lparr>t_id = newId, t_text = text, t_completed = False,
                      t_color = color, t_createdAt = now\<rparr>
      in s\<lparr>todos := sortBy cmpTodo (todos s @ [newTodo])\<rparr>)"

definition toggleTodo :: "jsstring \<Rightarrow> app_state \<Rightarrow> app_state" where
  "toggleTodo i s =
     s\<lparr>todos := sortBy cmpTodo
          (map (\<lambda>t. if t_id t = i then t\<lparr>t_completed := \<not> t_completed t\<rparr> else t) (todos s))\<rparr>"

definition deleteTodo :: "jsstring \<Rightarrow> app_state \<Rightarrow> app_state" where
  "deleteTodo i s = s\<lparr>todos := filter (\<lambda>t. t_id t \<noteq> i) (todos s)\<rparr>"

text \<open>
  The parameter \<open>time\<close> of \<open>addEvent\<close> has the default \<open>new Date().valueOf()\<close>;
  \<open>dflt\<close> is that clock reading, used when the argument is omitted (\<open>None\<close>).
\<close>

definition addEvent ::
  "(jsstring \<Rightarrow> int option) \<Rightarrow> jsstring \<Rightarrow> int \<Rightarrow> int \<Rightarrow> jsstring \<Rightarrow> jsstring \<Rightarrow> jsstring \<Rightarrow>
   int option \<Rightarrow> jsstring option \<Rightarrow> jsstring option \<Rightarrow> app_state \<Rightarrow> app_state" where
  "addEvent getTime newId now dflt title date color time relHighlight relResource s =
     (let newEvent = \<lparr>e_id = newId, e_title = title, e_date = date,
                       e_time = (case time of None \<Rightarrow> dflt | Some t \<Rightarrow> t),
                       e_color = color,
                       relatedHighlightId = relHighlight,
                       relatedResourceId = relResource,
                       e_createdAt = now\<rparr>
      in s\<lparr>events := sortBy (cmpEvent getTime) (events s @ [newEvent])\<rparr>)"

definition deleteEvent :: "jsstring \<Rightarrow> app_state \<Rightarrow> app_state" where
  "deleteEvent i s = s\<lparr>events := filter (\<lambda>e. e_id e \<noteq> i) (events s)\<rparr>"

definition addResource ::
  "jsstring \<Rightarrow> int \<Rightarrow> jsstring \<Rightarrow> resource_type \<Rightarrow> jsstring \<Rightarrow> jsstring \<Rightarrow> app_state \<Rightarrow> app_state" where
  "addResource newId now name type content color s =
     (let newResource = \<lparr>r_id = newId, r_name = name, r_type = type,
                          r_content = content, r_color = color, r_createdAt = now\<rparr>
      in s\<lparr>resources := sortBy cmpResource (resources s @ [newResource])\<rparr>)"

definition deleteResource :: "jsstring \<Rightarrow> app_state \<Rightarrow> app_state" where
  "deleteResource i s =
     s\<lparr>resources := filter (\<lambda>r. r_id r \<noteq> i) (resources s),
       events := filter (\<lambda>e. relatedResourceId e \<noteq> Some i) (events s)\<rparr>"

definition addIdeapadNote ::
  "jsstring \<Rightarrow> int \<Rightarrow> jsstring \<Rightarrow> jsstring \<Rightarrow> app_state \<Rightarrow> app_state" where
  "addIdeapadNote newId now text color s =
     (let newNote = \<lparr>n_id = newId, n_text = text, n_createdAt = now, n_color = color\<rparr>
      in s\<lparr>ideapadNotes := sortBy cmpNote (ideapadNotes s @ [newNote])\<rparr>)"

definition deleteIdeapadNote :: "jsstring \<Rightarrow> app_state \<Rightarrow> app_state" where
  "deleteIdeapadNote i s = s\<lparr>ideapadNotes := filter (\<lambda>n. n_id n \<noteq> i) (ideapadNotes s)\<rparr>"

section \<open>Form handlers\<close>

text \<open>
  \<open>String.prototype.trim\<close> removes the leading and trailing code units that
  are ECMAScript white space or line terminators.
\<close>

definition isWhiteSpace :: "16 word \<Rightarrow> bool" where
  "isWhiteSpace c \<longleftrightarrow>
     c = 0x0009 \<or> c = 0x000A \<or> c = 0x000B \<or> c = 0x000C \<or> c = 0x000D \<or>
     c = 0x0020 \<or> c = 0x00A0 \<or> c = 0x1680 \<or> (0x2000 \<le> c \<and> c \<le> 0x200A) \<or>
     c = 0x2028 \<or> c = 0x2029 \<or> c = 0x202F \<or> c = 0x205F \<or> c = 0x3000 \<or>
     c = 0xFEFF"

definition trim :: "jsstring \<Rightarrow> jsstring" where
  "trim s = rev (dropWhile isWhiteSpace (rev (dropWhile isWhiteSpace s)))"

text \<open>\<open>falsy s\<close> is \<open>!s\<close> for a string: only the empty string is falsy.\<close>

definition falsy :: "jsstring \<Rightarrow> bool" where
  "falsy s \<longleftrightarrow> s = []"

datatype handler_error = RangeError

text \<open>
  \<open>handleAddHighlight\<close>: \<open>toISOString d\<close> stands for
  \<open>new Date(d).toISOString()\<close>, which throws a RangeError (\<open>None\<close>) when
  \<open>d\<close> is not a date; the exception leaves the collections as they were.
  The handlers also reset their form fields, which are not part of the five
  collections.
\<close>

definition handleAddHighlight ::
  "(jsstring \<Rightarrow> jsstring option) \<Rightarrow> jsstring \<Rightarrow> int \<Rightarrow> jsstring \<Rightarrow> jsstring \<Rightarrow> jsstring \<Rightarrow>
   app_state \<Rightarrow> handler_error + app_state" where
  "handleAddHighlight toISOString newId now newHighlightText newHighlightDate newHighlightColor s =
     (if falsy (trim newHighlightText) then Inr s
      else case toISOString newHighlightDate of
             None \<Rightarrow> Inl RangeError
           | Some datetime \<Rightarrow>
               Inr (addHighlight newId now newHighlightText datetime newHighlightColor s))"

definition handleAddTodo ::
  "jsstring \<Rightarrow> int \<Rightarrow> jsstring \<Rightarrow> jsstring \<Rightarrow> app_state \<Rightarrow> app_state" where
  "handleAddTodo newId now newTodoText newTodoColor s =
     (if falsy (trim newTodoText) then s
      else addTodo newId now newTodoText newTodoColor s)"

text \<open>
  \<open>handleAddEvent\<close>: \<open>selectedDate\<close> is \<open>string | null\<close>; \<open>clock\<close> is the
  reading \<open>new Date().valueOf()\<close> that the handler passes as \<open>time\<close>.
\<close>

definition handleAddEvent ::
  "(jsstring \<Rightarrow> int option) \<Rightarrow> jsstring \<Rightarrow> int \<Rightarrow> int \<Rightarrow> jsstring \<Rightarrow> jsstring option \<Rightarrow>
   jsstring \<Rightarrow> jsstring option \<Rightarrow> jsstring option \<Rightarrow> app_state \<Rightarrow> app_state" where
  "handleAddEvent getTime newId now clock newEventTitle selectedDate newEventColor
       linkedHighlightId linkedResourceId s =
     (if falsy (trim newEventTitle) then s
      else case selectedDate of
             None \<Rightarrow> s
           | Some d \<Rightarrow>
               if falsy d then s
               else addEvent getTime newId now clock newEventTitle d newEventColor
                      (Some clock) linkedHighlightId linkedResourceId s)"

definition handleAddNote ::
  "jsstring \<Rightarrow> int \<Rightarrow> jsstring \<Rightarrow> jsstring \<Rightarrow> app_state \<Rightarrow> app_state" where
  "handleAddNote newId now newNoteText newNoteColor s =
     (if falsy (trim newNoteText) then s
      else addIdeapadNote newId now newNoteText newNoteColor s)"

definition handleAddResource ::
  "jsstring \<Rightarrow> int \<Rightarrow> jsstring \<Rightarrow> resource_type \<Rightarrow> jsstring \<Rightarrow> jsstring \<Rightarrow>
   app_state \<Rightarrow> app_state" where
  "handleAddResource newId now newResourceName newResourceType newResourceContent
       newResourceColor s =
     (if falsy (trim newResourceName) \<or> falsy (trim newResourceContent) then s
      else addResource newId now newResourceName newResourceType newResourceContent
             newResourceColor s)"

datatype item_type = HighlightItem | TodoItem | EventItem | ResourceItem | IdeapadNoteItem

text \<open>
  \<open>handleQuickWriteSubmit\<close> of the dashboard: \<open>nowISO\<close> is
  \<open>new Date().toISOString()\<close>; \<open>substring(0, 30)\<close> is \<open>take 30\<close>. The
  target \<open>event\<close> falls to the default branch, which only logs a warning.
\<close>

definition handleQuickWriteSubmit ::
  "jsstring \<Rightarrow> int \<Rightarrow> jsstring \<Rightarrow> jsstring \<Rightarrow> item_type \<Rightarrow> jsstring \<Rightarrow>
   app_state \<Rightarrow> app_state" where
  "handleQuickWriteSubmit newId now nowISO quickWriteText quickWriteTarget quickWriteColor s =
     (if falsy (trim quickWriteText) then s
      else case quickWriteTarget of
             HighlightItem \<Rightarrow> addHighlight newId now quickWriteText nowISO quickWriteColor s
           | TodoItem \<Rightarrow> addTodo newId now quickWriteText quickWriteColor s
           | IdeapadNoteItem \<Rightarrow> addIdeapadNote newId now quickWriteText quickWriteColor s
           | ResourceItem \<Rightarrow>
               addResource newId now (take 30 quickWriteText) Note quickWriteText
                 quickWriteColor s
           | EventItem \<Rightarrow> s)"

section \<open>Loading from local storage\<close>

text \<open>
  What \<open>localStorage.getItem(key)\<close> and \<open>JSON.parse\<close> make of one key:
  the call throws (\<open>Unreadable\<close>), or it returns a document, which is
  \<^item> \<open>Absent\<close>: \<open>null\<close> or the empty string, the values for which
    \<open>if (saved)\<close> skips the assignment;
  \<^item> \<open>Malformed\<close>: a non-empty string on which \<open>JSON.parse\<close> throws;
  \<^item> \<open>Parsed v\<close>: a non-empty string that \<open>JSON.parse\<close> turns into \<open>v\<close>.
\<close>

datatype 'a document = Absent | Malformed | Parsed "'a list"

datatype 'a item = Unreadable | Item "'a document"

record storage =
  appData_highlights :: "highlight item"
  appData_todos :: "todo item"
  appData_events :: "calendar_event item"
  appData_resources :: "resource item"
  appData_ideapadNotes :: "ideapad_note item"

datatype load_error = StorageError | SyntaxError

definition andThen :: "'e + 'a \<Rightarrow> ('a \<Rightarrow> 'e + 'b) \<Rightarrow> 'e + 'b" where
  "andThen r f = (case r of Inl e \<Rightarrow> Inl e | Inr v \<Rightarrow> f v)"

fun getItem :: "'a item \<Rightarrow> load_error + 'a document" where
  "getItem Unreadable = Inl StorageError"
| "getItem (Item d) = Inr d"

text \<open>\<open>hydrate saved cur\<close> is \<open>if (saved) setX(JSON.parse(saved))\<close> on the value \<open>cur\<close>.\<close>

fun hydrate :: "'a document \<Rightarrow> 'a list \<Rightarrow> load_error + 'a list" where
  "hydrate Absent cur = Inr cur"
| "hydrate Malformed cur = Inl SyntaxError"
| "hydrate (Parsed v) cur = Inr v"

text \<open>The body of the \<open>try\<close> block: five reads, then five guarded assignments.\<close>

definition try_load :: "storage \<Rightarrow> app_state \<Rightarrow> load_error + app_state" where
  "try_load st s =
     andThen (getItem (appData_highlights st)) (\<lambda>savedHighlights.
     andThen (getItem (appData_todos st)) (\<lambda>savedTodos.
     andThen (getItem (appData_events st)) (\<lambda>savedEvents.
     andThen (getItem (appData_resources st)) (\<lambda>savedResources.
     andThen (getItem (appData_ideapadNotes st)) (\<lambda>savedIdeapadNotes.
     andThen (hydrate savedHighlights (highlights s)) (\<lambda>hs.
     andThen (hydrate savedTodos (todos s)) (\<lambda>ts.
     andThen (hydrate savedEvents (events s)) (\<lambda>es.
     andThen (hydrate savedResources (resources s)) (\<lambda>rs.
     andThen (hydrate savedIdeapadNotes (ideapadNotes s)) (\<lambda>ns.
       Inr \<lparr>highlights = hs, todos = ts, events = es, resources = rs,
            ideapadNotes = ns\<rparr>))))))))))"

text \<open>
  The effect as a whole: the \<open>catch\<close> block assigns the empty array to all
  five collections, whichever statement of the \<open>try\<close> block threw.
\<close>

definition load :: "storage \<Rightarrow> app_state \<Rightarrow> app_state" where
  "load st s =
     (case try_load st s of
        Inr s' \<Rightarrow> s'
      | Inl err \<Rightarrow> \<lparr>highlights = [], todos = [], events = [], resources = [],
                    ideapadNotes = []\<rparr>)"

section \<open>Import (src/src/components/ui/FileOperations.tsx)\<close>

text \<open>
  The two messages that \<open>setError\<close> receives: the one for data that is not
  valid JSON, and the one for a file that could not be read.
\<close>

datatype import_error = InvalidFormat | ReadFailed

text \<open>\<open>e.target?.result\<close>: a string, or anything else.\<close>

datatype reader_result = Text jsstring | NotText

datatype file_read = ReadError | Loaded reader_result

text \<open>
  The callback \<open>onImport\<close> is a property of the component. It acts on the
  application state, and it may return or throw: the call stands inside the
  \<open>try\<close> block.
\<close>

datatype 'a outcome = Returned 'a | Thrown 'a

record import_state =
  app :: app_state
  error :: "import_error option"

text \<open>\<open>parse\<close> stands for \<open>JSON.parse\<close>: \<open>None\<close> when it throws.\<close>

definition onload ::
  "(jsstring \<Rightarrow> 'd option) \<Rightarrow> ('d \<Rightarrow> app_state \<Rightarrow> app_state outcome) \<Rightarrow> reader_result \<Rightarrow>
   import_state \<Rightarrow> import_state" where
  "onload parse onImport res st =
     (case res of
        NotText \<Rightarrow> st
      | Text t \<Rightarrow>
          (case parse t of
             None \<Rightarrow> st\<lparr>error := Some InvalidFormat\<rparr>
           | Some importedData \<Rightarrow>
               (case onImport importedData (app st) of
                  Returned a \<Rightarrow> \<lparr>app = a, error = None\<rparr>
                | Thrown a \<Rightarrow> \<lparr>app = a, error = Some InvalidFormat\<rparr>)))"

definition handleImport ::
  "(jsstring \<Rightarrow> 'd option) \<Rightarrow> ('d \<Rightarrow> app_state \<Rightarrow> app_state outcome) \<Rightarrow> file_read \<Rightarrow>
   import_state \<Rightarrow> import_state" where
  "handleImport parse onImport file st =
     (case file of
        ReadError \<Rightarrow> st\<lparr>error := Some ReadFailed\<rparr>
      | Loaded res \<Rightarrow> onload parse onImport res st)"

section \<open>Sequences of operations and the display order\<close>

datatype operation =
    AddHighlight jsstring int jsstring jsstring jsstring
  | DeleteHighlight jsstring
  | AddTodo jsstring int jsstring jsstring
  | ToggleTodo jsstring
  | DeleteTodo jsstring
  | AddEvent jsstring int int jsstring jsstring jsstring "int option"
      "jsstring option" "jsstring option"
  | DeleteEvent jsstring
  | AddResource jsstring int jsstring resource_type jsstring jsstring
  | DeleteResource jsstring
  | AddIdeapadNote jsstring int jsstring jsstring
  | DeleteIdeapadNote jsstring

fun perform :: "(jsstring \<Rightarrow> int option) \<Rightarrow> operation \<Rightarrow> app_state \<Rightarrow> app_state" where
  "perform getTime (AddHighlight newId now text datetime color) s =
     addHighlight newId now text datetime color s"
| "perform getTime (DeleteHighlight i) s = deleteHighlight i s"
| "perform getTime (AddTodo newId now text color) s = addTodo newId now text color s"
| "perform getTime (ToggleTodo i) s = toggleTodo i s"
| "perform getTime (DeleteTodo i) s = deleteTodo i s"
| "perform getTime (AddEvent newId now dflt title date color time rh rr) s =
     addEvent getTime newId now dflt title date color time rh rr s"
| "perform getTime (DeleteEvent i) s = deleteEvent i s"
| "perform getTime (AddResource newId now name type content color) s =
     addResource newId now name type content color s"
| "perform getTime (DeleteResource i) s = deleteResource i s"
| "perform getTime (AddIdeapadNote newId now text color) s =
     addIdeapadNote newId now text color s"
| "perform getTime (DeleteIdeapadNote i) s = deleteIdeapadNote i s"

fun run :: "(jsstring \<Rightarrow> int option) \<Rightarrow> operation list \<Rightarrow> app_state \<Rightarrow> app_state" where
  "run getTime [] s = s"
| "run getTime (op # ops) s = run getTime ops (perform getTime op s)"

text \<open>
  An event has a valid date when its date string denotes a date, as the
  \<open>YYYY-MM-DD\<close> strings of the calendar do.
\<close>

definition valid_date :: "(jsstring \<Rightarrow> int option) \<Rightarrow> calendar_event \<Rightarrow> bool" where
  "valid_date getTime e \<longleftrightarrow> getTime (e_date e) \<noteq> None"

fun valid_operation :: "(jsstring \<Rightarrow> int option) \<Rightarrow> operation \<Rightarrow> bool" where
  "valid_operation getTime (AddEvent newId now dflt title date color time rh rr) \<longleftrightarrow>
     getTime date \<noteq> None"
| "valid_operation getTime _ \<longleftrightarrow> True"

text \<open>The display orders, in the words of the specification.\<close>

definition newest_first :: "('a \<Rightarrow> int) \<Rightarrow> 'a list \<Rightarrow> bool" where
  "newest_first createdAt xs \<longleftrightarrow> sorted_wrt (\<lambda>a b. createdAt b \<le> createdAt a) xs"

definition todo_order :: "todo \<Rightarrow> todo \<Rightarrow> bool" where
  "todo_order a b \<longleftrightarrow>
     (\<not> t_completed a \<and> t_completed b) \<or>
     (t_completed a = t_completed b \<and> t_createdAt b \<le> t_createdAt a)"

definition event_order ::
  "(jsstring \<Rightarrow> int option) \<Rightarrow> calendar_event \<Rightarrow> calendar_event \<Rightarrow> bool" where
  "event_order getTime a b \<longleftrightarrow>
     (case (getTime (e_date a), getTime (e_date b)) of
        (Some x, Some y) \<Rightarrow> x < y \<or> (x = y \<and> e_createdAt b \<le> e_createdAt a)
      | _ \<Rightarrow> False)"

definition sort_invariants :: "(jsstring \<Rightarrow> int option) \<Rightarrow> app_state \<Rightarrow> bool" where
  "sort_invariants getTime s \<longleftrightarrow>
     newest_first h_createdAt (highlights s) \<and>
     sorted_wrt todo_order (todos s) \<and>
     sorted_wrt (event_order getTime) (events s) \<and>
     newest_first r_createdAt (resources s) \<and>
     newest_first n_createdAt (ideapadNotes s)"

section \<open>Sample data\<close>

text \<open>An ASCII literal as a JavaScript string.\<close>

definition js :: "string \<Rightarrow> jsstring" where
  "js s = map of_char s"

text \<open>
  A date function that knows two days: the time values are those of
  midnight UTC, in milliseconds; every other string is not a date.
\<close>

definition sample_getTime :: "jsstring \<Rightarrow> int option" where
  "sample_getTime d =
     (if d = js ''2024-05-01'' then Some 1714521600000
      else if d = js ''2024-05-02'' then Some 1714608000000
      else None)"

definition sample_highlight :: highlight where
  "sample_highlight =
     \<lparr>h_id = js ''h1'', h_text = js ''idea'', h_datetime = js ''2024-05-01T09:00:00.000Z'',
      h_color = js ''bg-red-200'', h_createdAt = 100\<rparr>"

definition sample_todo :: todo where
  "sample_todo =
     \<lparr>t_id = js ''t1'', t_text = js ''buy milk'', t_completed = False,
      t_color = js ''bg-yellow-200'', t_createdAt = 300\<rparr>"

definition meeting :: calendar_event where
  "meeting =
     \<lparr>e_id = js ''e1'', e_title = js ''Meeting'', e_date = js ''2024-05-01'', e_time = 0,
      e_color = js ''bg-blue-200'', relatedHighlightId = Some (js ''h1''),
      relatedResourceId = None, e_createdAt = 200\<rparr>"

definition reading :: calendar_event where
  "reading =
     \<lparr>e_id = js ''e2'', e_title = js ''Reading'', e_date = js ''2024-05-02'', e_time = 0,
      e_color = js ''bg-blue-200'', relatedHighlightId = None,
      relatedResourceId = Some (js ''r1''), e_createdAt = 210\<rparr>"

definition sample_resource :: resource where
  "sample_resource =
     \<lparr>r_id = js ''r1'', r_name = js ''paper'', r_type = Link, r_content = js ''http://x'',
      r_color = js ''bg-purple-200'', r_createdAt = 90\<rparr>"

definition sample_note :: ideapad_note where
  "sample_note =
     \<lparr>n_id = js ''n1'', n_text = js ''sketch'', n_createdAt = 50,
      n_color = js ''bg-indigo-200''\<rparr>"

definition sample_state :: app_state where
  "sample_state =
     \<lparr>highlights = [sample_highlight], todos = [sample_todo], events = [meeting, reading],
      resources = [sample_resource], ideapadNotes = [sample_note]\<rparr>"


text \<open>
  What a stored item contributes when the load succeeds, and whether it makes
  the load fail.
\<close>

fun contents :: "'a item \<Rightarrow> 'a list" where
  "contents (Item (Parsed v)) = v"
| "contents _ = []"

fun fails :: "'a item \<Rightarrow> bool" where
  "fails Unreadable = True"
| "fails (Item Malformed) = True"
| "fails _ = False"

text \<open>
  A storage in which the highlights document is sound and the todos document
  is not valid JSON.
\<close>

definition corrupt_todos_storage :: storage where
  "corrupt_todos_storage =
     \<lparr>appData_highlights = Item (Parsed [sample_highlight]),
      appData_todos = Item Malformed,
      appData_events = Item Absent,
      appData_resources = Item Absent,
      appData_ideapadNotes = Item Absent\<rparr>"

text \<open>A storage in which only the todos document is missing.\<close>

definition missing_todos_storage :: storage where
  "missing_todos_storage =
     \<lparr>appData_highlights = Item (Parsed [sample_highlight]),
      appData_todos = Item Absent,
      appData_events = Item (Parsed [meeting, reading]),
      appData_resources = Item (Parsed [sample_resource]),
      appData_ideapadNotes = Item (Parsed [sample_note])\<rparr>"

text \<open>
  The document of an import: one optional field for each collection
  (\<open>FileData\<close> is an object with arbitrary keys).
\<close>

record file_data =
  d_highlights :: "highlight list option"
  d_todos :: "todo list option"
  d_events :: "calendar_event list option"
  d_resources :: "resource list option"
  d_ideapadNotes :: "ideapad_note list option"

text \<open>
  Modelled from the spec: the callback that the application passes as
  \<open>onImport\<close> is not among the source files. The specification says that it
  replaces each collection by the field of that name in the document and
  leaves a collection unchanged when the document has no such field. It is
  the sample callback of the import; the import theorem holds for every
  callback.
\<close>

definition replace_collections :: "file_data \<Rightarrow> app_state \<Rightarrow> app_state outcome" where
  "replace_collections d s =
     Returned
       \<lparr>highlights = (case d_highlights d of None \<Rightarrow> highlights s | Some v \<Rightarrow> v),
        todos = (case d_todos d of None \<Rightarrow> todos s | Some v \<Rightarrow> v),
        events = (case d_events d of None \<Rightarrow> events s | Some v \<Rightarrow> v),
        resources = (case d_resources d of None \<Rightarrow> resources s | Some v \<Rightarrow> v),
        ideapadNotes = (case d_ideapadNotes d of None \<Rightarrow> ideapadNotes s | Some v \<Rightarrow> v)\<rparr>"

text \<open>
  The code units of the JSON text \<open>{"todos":[]}\<close>, and a parser that knows
  this one document and rejects every other text.
\<close>

definition todos_document :: jsstring where
  "todos_document = [0x7B, 0x22, 0x74, 0x6F, 0x64, 0x6F, 0x73, 0x22, 0x3A, 0x5B, 0x5D, 0x7D]"

definition sample_parse :: "jsstring \<Rightarrow> file_data option" where
  "sample_parse t =
     (if t = todos_document
      then Some \<lparr>d_highlights = None, d_todos = Some [], d_events = None,
                 d_resources = None, d_ideapadNotes = None\<rparr>
      else None)"

text \<open>
  An event whose date string is not a date, alone in an otherwise empty
  state, and the event that a later add with a date creates.
\<close>

definition undated :: calendar_event where
  "undated =
     \<lparr>e_id = js ''e0'', e_title = js ''Someday'', e_date = js ''someday'', e_time = 0,
      e_color = js ''bg-blue-200'', relatedHighlightId = None, relatedResourceId = None,
      e_createdAt = 100\<rparr>"

definition lunch :: calendar_event where
  "lunch =
     \<lparr>e_id = js ''e3'', e_title = js ''Lunch'', e_date = js ''2024-05-01'', e_time = 0,
      e_color = js ''bg-red-200'', relatedHighlightId = None, relatedResourceId = None,
      e_createdAt = 320\<rparr>"

definition undated_state :: app_state where
  "undated_state =
     \<lparr>highlights = [], todos = [], events = [undated], resources = [], ideapadNotes = []\<rparr>"

text \<open>
  A quick-write text that is not blank and whose first 30 code units are:
  thirty spaces followed by the letter \<open>x\<close>.
\<close>

definition padded_text :: jsstring where
  "padded_text = replicate 30 0x0020 @ js ''x''"

text \<open>
  A callback that throws without changing the application state, as one does
  that rejects the shape of the document.
\<close>

definition throwing_callback :: "file_data \<Rightarrow> app_state \<Rightarrow> app_state outcome" where
  "throwing_callback d s = Thrown s"

text \<open>
  A comparator is consistent on a set when, on that set, ``not after'' is a
  total preorder. Only then does \<open>sort\<close> have a result fixed by the language.
\<close>

definition consistent_on :: "'a set \<Rightarrow> ('a \<Rightarrow> 'a \<Rightarrow> int) \<Rightarrow> bool" where
  "consistent_on A cmp \<longleftrightarrow>
     (\<forall>a\<in>A. \<forall>b\<in>A. cmp a b \<le> 0 \<or> cmp b a \<le> 0) \<and>
     (\<forall>a\<in>A. \<forall>b\<in>A. \<forall>c\<in>A. cmp a b \<le> 0 \<longrightarrow> cmp b c \<le> 0 \<longrightarrow> cmp a c \<le> 0)"

section \<open>Basic facts about the comparator sort\<close>

lemma mset_insertBy: "mset (insertBy cmp x ys) = add_mset x (mset ys)"
  by (induction ys) simp_all

lemma mset_sortBy: "mset (sortBy cmp xs) = mset xs"
  by (induction xs) (simp_all add: mset_insertBy)

lemma set_insertBy: "set (insertBy cmp x ys) = insert x (set ys)"
  using mset_insertBy [of cmp x ys] by (metis set_mset_add_mset_insert set_mset_mset)

lemma set_sortBy: "set (sortBy cmp xs) = set xs"
  using mset_sortBy [of cmp xs] by (metis set_mset_mset)

lemma consistent_onD_total:
  "consistent_on A cmp \<Longrightarrow> a \<in> A \<Longrightarrow> b \<in> A \<Longrightarrow> \<not> cmp a b \<le> 0 \<Longrightarrow> cmp b a \<le> 0"
  unfolding consistent_on_def by blast

lemma consistent_onD_trans:
  "consistent_on A cmp \<Longrightarrow> a \<in> A \<Longrightarrow> b \<in> A \<Longrightarrow> c \<in> A \<Longrightarrow>
   cmp a b \<le> 0 \<Longrightarrow> cmp b c \<le> 0 \<Longrightarrow> cmp a c \<le> 0"
  unfolding consistent_on_def by blast

lemma sorted_insertBy:
  assumes c: "consistent_on A cmp" and x: "x \<in> A"
  shows "set ys \<subseteq> A \<Longrightarrow> sorted_wrt (\<lambda>a b. cmp a b \<le> 0) ys \<Longrightarrow>
         sorted_wrt (\<lambda>a b. cmp a b \<le> 0) (insertBy cmp x ys)"
proof (induction ys)
  case Nil
  then show ?case by simp
next
  case (Cons y ys)
  show ?case
  proof (cases "cmp x y \<le> 0")
    case True
    have "cmp x z \<le> 0" if "z \<in> set ys" for z
      using consistent_onD_trans [OF c x, of y z] True Cons.prems that by auto
    with True Cons.prems show ?thesis by simp
  next
    case False
    then have yx: "cmp y x \<le> 0"
      using consistent_onD_total [OF c x, of y] Cons.prems by simp
    with False Cons show ?thesis by (auto simp: set_insertBy)
  qed
qed

lemma sorted_sortBy:
  assumes c: "consistent_on A cmp"
  shows "set xs \<subseteq> A \<Longrightarrow> sorted_wrt (\<lambda>a b. cmp a b \<le> 0) (sortBy cmp xs)"
  by (induction xs) (simp_all add: sorted_insertBy [OF c] set_sortBy)

lemma insertBy_least: "\<forall>y\<in>set ys. cmp x y \<le> 0 \<Longrightarrow> insertBy cmp x ys = x # ys"
  by (cases ys) simp_all

lemma sortBy_sorted_id: "sorted_wrt (\<lambda>a b. cmp a b \<le> 0) xs \<Longrightarrow> sortBy cmp xs = xs"
  by (induction xs) (simp_all add: insertBy_least)

lemma filter_insertBy_out: "\<not> P x \<Longrightarrow> filter P (insertBy cmp x ys) = filter P ys"
  by (induction ys) simp_all

lemma filter_insertBy_in:
  assumes c: "consistent_on A cmp" and x: "x \<in> A" and p: "P x"
  shows "set ys \<subseteq> A \<Longrightarrow> sorted_wrt (\<lambda>a b. cmp a b \<le> 0) ys \<Longrightarrow>
         filter P (insertBy cmp x ys) = insertBy cmp x (filter P ys)"
proof (induction ys)
  case Nil
  show ?case using p by simp
next
  case (Cons y ys)
  show ?case
  proof (cases "cmp x y \<le> 0")
    case True
    have "cmp x z \<le> 0" if "z \<in> set ys" for z
      using consistent_onD_trans [OF c x, of y z] True Cons.prems that by auto
    then have "insertBy cmp x (filter P ys) = x # filter P ys"
      by (simp add: insertBy_least)
    with True p show ?thesis by simp
  next
    case False
    with Cons show ?thesis by simp
  qed
qed

lemma filter_sortBy:
  assumes c: "consistent_on A cmp"
  shows "set xs \<subseteq> A \<Longrightarrow> filter P (sortBy cmp xs) = sortBy cmp (filter P xs)"
proof (induction xs)
  case Nil
  show ?case by simp
next
  case (Cons x xs)
  show ?case
  proof (cases "P x")
    case True
    then show ?thesis
      using Cons filter_insertBy_in [where P = P and x = x and ys = "sortBy cmp xs", OF c]
        sorted_sortBy [OF c, of xs]
      by (simp add: set_sortBy)
  next
    case False
    with Cons show ?thesis by (simp add: filter_insertBy_out)
  qed
qed

lemmas sample_defs =
  js_def sample_getTime_def sample_highlight_def sample_todo_def meeting_def reading_def
  sample_resource_def sample_note_def sample_state_def initial_state_def

section \<open>Cascade delete\<close>

lemma mset_split_related:
  "mset xs = mset (filter (\<lambda>e. f e \<noteq> Some k) xs) + filter_mset (\<lambda>e. f e = Some k) (mset xs)"
  by (induction xs) simp_all

text \<open>
  Claim C1. \<open>deleteHighlight i\<close> removes from the events exactly the events
  whose \<open>relatedHighlightId\<close> is \<open>i\<close>, and \<open>deleteResource j\<close> exactly those whose
  \<open>relatedResourceId\<close> is \<open>j\<close>: the events before are the events after
  together with the events that carry the deleted id, no event after carries
  it, and every other event remains, as often as it occurred.
\<close>

theorem cascade_delete_removes_exactly_related_events:
  "mset (events s) =
     mset (events (deleteHighlight i s)) +
     filter_mset (\<lambda>e. relatedHighlightId e = Some i) (mset (events s)) \<and>
   (\<forall>e \<in> set (events (deleteHighlight i s)). relatedHighlightId e \<noteq> Some i) \<and>
   mset (events s) =
     mset (events (deleteResource j s)) +
     filter_mset (\<lambda>e. relatedResourceId e = Some j) (mset (events s)) \<and>
   (\<forall>e \<in> set (events (deleteResource j s)). relatedResourceId e \<noteq> Some j)"
  using mset_split_related [of "events s" relatedHighlightId i]
    mset_split_related [of "events s" relatedResourceId j]
  by (simp add: deleteHighlight_def deleteResource_def)

theorem cascade_delete_removes_exactly_related_events_witness:
  "events (deleteHighlight (js ''h1'') sample_state) = [reading] \<and>
   events (deleteResource (js ''r1'') sample_state) = [meeting]"
  using cascade_delete_removes_exactly_related_events [of sample_state "js ''h1''" "js ''r1''"]
  by (simp add: deleteHighlight_def deleteResource_def sample_defs)

section \<open>Relations of a new event\<close>

text \<open>
  Claim C9. \<open>addEvent\<close> checks nothing about its relation arguments: for every
  state and every \<open>relatedHighlightId\<close> and \<open>relatedResourceId\<close>, the events
  afterwards are the events before plus the new event, which carries the two
  ids as they were given, and no highlight or resource is looked up or
  created. So the new event may refer to a highlight or resource that does
  not exist.
\<close>

theorem addEvent_stores_relations_unchecked:
  "mset (events (addEvent getTime newId now dflt title date color time rh rr s)) =
     add_mset
       \<lparr>e_id = newId, e_title = title, e_date = date,
        e_time = (case time of None \<Rightarrow> dflt | Some t \<Rightarrow> t), e_color = color,
        relatedHighlightId = rh, relatedResourceId = rr, e_createdAt = now\<rparr>
       (mset (events s)) \<and>
   highlights (addEvent getTime newId now dflt title date color time rh rr s) = highlights s \<and>
   resources (addEvent getTime newId now dflt title date color time rh rr s) = resources s"
  by (simp add: addEvent_def Let_def mset_sortBy)

theorem addEvent_stores_relations_unchecked_witness:
  "events (addEvent sample_getTime (js ''e9'') 400 0 (js ''Meeting'') (js ''2024-05-01'')
             (js ''bg-blue-200'') None (Some (js ''ghost'')) (Some (js ''nowhere''))
             initial_state) =
     [\<lparr>e_id = js ''e9'', e_title = js ''Meeting'', e_date = js ''2024-05-01'', e_time = 0,
       e_color = js ''bg-blue-200'', relatedHighlightId = Some (js ''ghost''),
       relatedResourceId = Some (js ''nowhere''), e_createdAt = 400\<rparr>] \<and>
   highlights (addEvent sample_getTime (js ''e9'') 400 0 (js ''Meeting'') (js ''2024-05-01'')
             (js ''bg-blue-200'') None (Some (js ''ghost'')) (Some (js ''nowhere''))
             initial_state) = [] \<and>
   resources (addEvent sample_getTime (js ''e9'') 400 0 (js ''Meeting'') (js ''2024-05-01'')
             (js ''bg-blue-200'') None (Some (js ''ghost'')) (Some (js ''nowhere''))
             initial_state) = []"
  using addEvent_stores_relations_unchecked [of sample_getTime "js ''e9''" 400 0
      "js ''Meeting''" "js ''2024-05-01''" "js ''bg-blue-200''" None "Some (js ''ghost'')"
      "Some (js ''nowhere'')" initial_state]
  by (simp add: addEvent_def initial_state_def)

section \<open>Frame conditions\<close>

lemma addHighlight_frame:
  "todos (addHighlight newId now text datetime color s) = todos s \<and>
   events (addHighlight newId now text datetime color s) = events s \<and>
   resources (addHighlight newId now text datetime color s) = resources s \<and>
   ideapadNotes (addHighlight newId now text datetime color s) = ideapadNotes s"
  by (simp add: addHighlight_def Let_def)

lemma addTodo_frame:
  "highlights (addTodo newId now text color s) = highlights s \<and>
   events (addTodo newId now text color s) = events s \<and>
   resources (addTodo newId now text color s) = resources s \<and>
   ideapadNotes (addTodo newId now text color s) = ideapadNotes s"
  by (simp add: addTodo_def Let_def)

lemma addEvent_frame:
  "highlights (addEvent getTime newId now dflt title date color time rh rr s) = highlights s \<and>
   todos (addEvent getTime newId now dflt title date color time rh rr s) = todos s \<and>
   resources (addEvent getTime newId now dflt title date color time rh rr s) = resources s \<and>
   ideapadNotes (addEvent getTime newId now dflt title date color time rh rr s) = ideapadNotes s"
  by (simp add: addEvent_def Let_def)

lemma addResource_frame:
  "highlights (addResource newId now name type content color s) = highlights s \<and>
   todos (addResource newId now name type content color s) = todos s \<and>
   events (addResource newId now name type content color s) = events s \<and>
   ideapadNotes (addResource newId now name type content color s) = ideapadNotes s"
  by (simp add: addResource_def Let_def)

lemma addIdeapadNote_frame:
  "highlights (addIdeapadNote newId now text color s) = highlights s \<and>
   todos (addIdeapadNote newId now text color s) = todos s \<and>
   events (addIdeapadNote newId now text color s) = events s \<and>
   resources (addIdeapadNote newId now text color s) = resources s"
  by (simp add: addIdeapadNote_def Let_def)

lemma toggleTodo_frame:
  "highlights (toggleTodo i s) = highlights s \<and>
   events (toggleTodo i s) = events s \<and>
   resources (toggleTodo i s) = resources s \<and>
   ideapadNotes (toggleTodo i s) = ideapadNotes s"
  by (simp add: toggleTodo_def)

lemma delete_own_frame:
  "highlights (deleteTodo i s) = highlights s \<and>
   events (deleteTodo i s) = events s \<and>
   resources (deleteTodo i s) = resources s \<and>
   ideapadNotes (deleteTodo i s) = ideapadNotes s \<and>
   highlights (deleteEvent i s) = highlights s \<and>
   todos (deleteEvent i s) = todos s \<and>
   resources (deleteEvent i s) = resources s \<and>
   ideapadNotes (deleteEvent i s) = ideapadNotes s \<and>
   highlights (deleteIdeapadNote i s) = highlights s \<and>
   todos (deleteIdeapadNote i s) = todos s \<and>
   events (deleteIdeapadNote i s) = events s \<and>
   resources (deleteIdeapadNote i s) = resources s"
  by (simp add: deleteTodo_def deleteEvent_def deleteIdeapadNote_def)

lemma delete_cascade_frame:
  "todos (deleteHighlight i s) = todos s \<and>
   resources (deleteHighlight i s) = resources s \<and>
   ideapadNotes (deleteHighlight i s) = ideapadNotes s \<and>
   highlights (deleteResource i s) = highlights s \<and>
   todos (deleteResource i s) = todos s \<and>
   ideapadNotes (deleteResource i s) = ideapadNotes s"
  by (simp add: deleteHighlight_def deleteResource_def)

text \<open>
  Claim C10. Every mutation leaves the collections it is not specified for as
  they were: each add operation, \<open>deleteTodo\<close>, \<open>deleteEvent\<close> and
  \<open>deleteIdeapadNote\<close> leave the four collections other than their own
  unchanged; \<open>deleteHighlight\<close> leaves todos, resources and ideapad notes
  unchanged; \<open>deleteResource\<close> leaves highlights, todos and ideapad notes
  unchanged.
\<close>

theorem mutations_touch_only_their_collections:
  "(todos (addHighlight newId now text datetime color s) = todos s \<and>
    events (addHighlight newId now text datetime color s) = events s \<and>
    resources (addHighlight newId now text datetime color s) = resources s \<and>
    ideapadNotes (addHighlight newId now text datetime color s) = ideapadNotes s) \<and>
   (highlights (addTodo newId now text color s) = highlights s \<and>
    events (addTodo newId now text color s) = events s \<and>
    resources (addTodo newId now text color s) = resources s \<and>
    ideapadNotes (addTodo newId now text color s) = ideapadNotes s) \<and>
   (highlights (addEvent getTime newId now dflt title date color time rh rr s) = highlights s \<and>
    todos (addEvent getTime newId now dflt title date color time rh rr s) = todos s \<and>
    resources (addEvent getTime newId now dflt title date color time rh rr s) = resources s \<and>
    ideapadNotes (addEvent getTime newId now dflt title date color time rh rr s) =
      ideapadNotes s) \<and>
   (highlights (addResource newId now name type content color s) = highlights s \<and>
    todos (addResource newId now name type content color s) = todos s \<and>
    events (addResource newId now name type content color s) = events s \<and>
    ideapadNotes (addResource newId now name type content color s) = ideapadNotes s) \<and>
   (highlights (addIdeapadNote newId now text color s) = highlights s \<and>
    todos (addIdeapadNote newId now text color s) = todos s \<and>
    events (addIdeapadNote newId now text color s) = events s \<and>
    resources (addIdeapadNote newId now text color s) = resources s) \<and>
   (highlights (deleteTodo i s) = highlights s \<and>
    events (deleteTodo i s) = events s \<and>
    resources (deleteTodo i s) = resources s \<and>
    ideapadNotes (deleteTodo i s) = ideapadNotes s) \<and>
   (highlights (deleteEvent i s) = highlights s \<and>
    todos (deleteEvent i s) = todos s \<and>
    resources (deleteEvent i s) = resources s \<and>
    ideapadNotes (deleteEvent i s) = ideapadNotes s) \<and>
   (highlights (deleteIdeapadNote i s) = highlights s \<and>
    todos (deleteIdeapadNote i s) = todos s \<and>
    events (deleteIdeapadNote i s) = events s \<and>
    resources (deleteIdeapadNote i s) = resources s) \<and>
   (todos (deleteHighlight i s) = todos s \<and>
    resources (deleteHighlight i s) = resources s \<and>
    ideapadNotes (deleteHighlight i s) = ideapadNotes s) \<and>
   (highlights (deleteResource i s) = highlights s \<and>
    todos (deleteResource i s) = todos s \<and>
    ideapadNotes (deleteResource i s) = ideapadNotes s)"
  using addHighlight_frame [of newId now "text" datetime color s]
    addTodo_frame [of newId now "text" color s]
    addEvent_frame [of getTime newId now dflt title date color time rh rr s]
    addResource_frame [of newId now name "type" content color s]
    addIdeapadNote_frame [of newId now "text" color s]
    delete_own_frame [of i s] delete_cascade_frame [of i s]
  by simp

section \<open>Toggling a todo\<close>

lemma toggle_flip_twice:
  "(\<lambda>t. if t_id t = i then t\<lparr>t_completed := \<not> t_completed t\<rparr> else t) \<circ>
   (\<lambda>t. if t_id t = i then t\<lparr>t_completed := \<not> t_completed t\<rparr> else t) = (\<lambda>t. t)"
  by (rule ext) simp

lemma mset_todos_toggleTodo:
  "mset (todos (toggleTodo i s)) =
     image_mset (\<lambda>t. if t_id t = i then t\<lparr>t_completed := \<not> t_completed t\<rparr> else t)
       (mset (todos s))"
  by (simp add: toggleTodo_def mset_sortBy)

text \<open>
  Claim C5. One \<open>toggleTodo i\<close> negates \<open>completed\<close> in the todos whose id is
  \<open>i\<close> and changes no other field and no other todo; two of them give back
  the todos that were there, each with all its fields, \<open>completed\<close> included, as
  before. The other four collections are untouched.
\<close>

theorem toggleTodo_twice_restores_todos:
  "mset (todos (toggleTodo i s)) =
     image_mset (\<lambda>t. if t_id t = i then t\<lparr>t_completed := \<not> t_completed t\<rparr> else t)
       (mset (todos s)) \<and>
   mset (todos (toggleTodo i (toggleTodo i s))) = mset (todos s) \<and>
   highlights (toggleTodo i (toggleTodo i s)) = highlights s \<and>
   events (toggleTodo i (toggleTodo i s)) = events s \<and>
   resources (toggleTodo i (toggleTodo i s)) = resources s \<and>
   ideapadNotes (toggleTodo i (toggleTodo i s)) = ideapadNotes s"
proof -
  define flip :: "todo \<Rightarrow> todo" where
    "flip = (\<lambda>t. if t_id t = i then t\<lparr>t_completed := \<not> t_completed t\<rparr> else t)"
  have twice: "flip \<circ> flip = (\<lambda>t. t)"
    unfolding flip_def by (rule toggle_flip_twice)
  have "mset (todos (toggleTodo i (toggleTodo i s))) =
          image_mset (flip \<circ> flip) (mset (todos s))"
    unfolding flip_def by (simp add: mset_todos_toggleTodo multiset.map_comp)
  also have "\<dots> = mset (todos s)"
    unfolding twice by simp
  finally show ?thesis
    by (simp add: mset_todos_toggleTodo toggleTodo_frame)
qed

theorem toggleTodo_twice_restores_todos_witness:
  "todos (toggleTodo (js ''t1'') sample_state) = [sample_todo\<lparr>t_completed := True\<rparr>] \<and>
   todos (toggleTodo (js ''t1'') (toggleTodo (js ''t1'') sample_state)) = [sample_todo]"
  using toggleTodo_twice_restores_todos [of "js ''t1''" sample_state]
  by (simp add: toggleTodo_def sample_defs)

section \<open>Deleting an id that is absent\<close>

lemma filter_absent_id: "i \<notin> set (map f xs) \<Longrightarrow> filter (\<lambda>x. f x \<noteq> i) xs = xs"
  by (induction xs) auto





section \<open>Empty and whitespace-only input\<close>

lemma trim_empty_iff: "trim s = [] \<longleftrightarrow> list_all isWhiteSpace s"
proof
  assume "trim s = []"
  then have "\<forall>c \<in> set (dropWhile isWhiteSpace s). isWhiteSpace c"
    by (simp add: trim_def dropWhile_eq_Nil_conv)
  then have "dropWhile isWhiteSpace s = []"
    using hd_dropWhile [of isWhiteSpace s] hd_in_set [of "dropWhile isWhiteSpace s"]
    by blast
  then show "list_all isWhiteSpace s"
    by (simp add: dropWhile_eq_Nil_conv list_all_iff)
next
  assume "list_all isWhiteSpace s"
  then have d: "dropWhile isWhiteSpace s = []"
    by (simp add: dropWhile_eq_Nil_conv list_all_iff)
  show "trim s = []"
    unfolding trim_def d by simp
qed

lemma falsy_trim: "list_all isWhiteSpace s \<Longrightarrow> falsy (trim s)"
  by (simp add: falsy_def trim_empty_iff)

text \<open>
  Every handler that calls an add operation guards the text of its form: a
  text that is empty or white space only is rejected and the state is
  unchanged. In the five forms the guarded text is the text or title that the
  add operation receives.
\<close>

lemma handlers_guard_form_text:
  assumes "list_all isWhiteSpace txt"
  shows
    "handleAddHighlight toISOString newId now txt newHighlightDate color s = Inr s \<and>
     handleAddTodo newId now txt color s = s \<and>
     handleAddEvent getTime newId now clock txt selectedDate color linkedHighlightId
       linkedResourceId s = s \<and>
     handleAddNote newId now txt color s = s \<and>
     handleAddResource newId now txt newResourceType newResourceContent color s = s \<and>
     handleQuickWriteSubmit newId now nowISO txt quickWriteTarget color s = s"
  using falsy_trim [OF assms]
  by (simp add: handleAddHighlight_def handleAddTodo_def handleAddEvent_def
      handleAddNote_def handleAddResource_def handleQuickWriteSubmit_def)

lemma padded_text_not_blank: "\<not> falsy (trim padded_text)"
proof -
  have "\<not> isWhiteSpace 0x0078"
    by (simp add: isWhiteSpace_def)
  then have "\<not> list_all isWhiteSpace padded_text"
    by (simp add: padded_text_def js_def)
  then show ?thesis
    by (simp add: falsy_def trim_empty_iff)
qed

lemma padded_text_name: "take 30 padded_text = replicate 30 0x0020"
  by (simp add: padded_text_def)

text \<open>
  Claim C3. An add with a title that is empty or white space only is to be
  rejected. The quick write of the dashboard misses this for a resource: it
  guards the whole text and passes the first 30 code units of it as the name.
  With the text of thirty spaces and an \<open>x\<close> the guard passes, the name is
  thirty spaces, and a resource with that name is created in the empty state.
  The resource form rejects this very name and content.
\<close>

theorem quick_write_creates_resource_with_blank_name:
  "\<not> falsy (trim padded_text) \<and>
   list_all isWhiteSpace (take 30 padded_text) \<and>
   resources (handleQuickWriteSubmit (js ''r2'') 500 (js ''2024-05-01T09:00:00.000Z'')
                padded_text ResourceItem (js ''bg-red-200'') initial_state) =
     [\<lparr>r_id = js ''r2'', r_name = replicate 30 0x0020, r_type = Note,
       r_content = padded_text, r_color = js ''bg-red-200'', r_createdAt = 500\<rparr>] \<and>
   handleAddResource (js ''r2'') 500 (replicate 30 0x0020) Note padded_text
     (js ''bg-red-200'') initial_state = initial_state"
proof -
  have blank: "list_all isWhiteSpace (replicate 30 (0x0020 :: 16 word))"
    by (simp add: list_all_iff isWhiteSpace_def)
  have created:
    "resources (handleQuickWriteSubmit (js ''r2'') 500 (js ''2024-05-01T09:00:00.000Z'')
                padded_text ResourceItem (js ''bg-red-200'') initial_state) =
     [\<lparr>r_id = js ''r2'', r_name = replicate 30 0x0020, r_type = Note,
       r_content = padded_text, r_color = js ''bg-red-200'', r_createdAt = 500\<rparr>]"
    using padded_text_not_blank
    by (simp add: handleQuickWriteSubmit_def addResource_def initial_state_def
        padded_text_name)
  have rejected:
    "handleAddResource (js ''r2'') 500 (replicate 30 0x0020) Note padded_text
       (js ''bg-red-200'') initial_state = initial_state"
    using falsy_trim [OF blank] by (simp add: handleAddResource_def)
  from padded_text_not_blank blank created rejected show ?thesis
    by (simp add: padded_text_name)
qed

section \<open>The comparators of App.tsx are consistent\<close>

lemma cmpHighlight_le: "cmpHighlight a b \<le> 0 \<longleftrightarrow> h_createdAt b \<le> h_createdAt a"
  by (simp add: cmpHighlight_def)

lemma cmpResource_le: "cmpResource a b \<le> 0 \<longleftrightarrow> r_createdAt b \<le> r_createdAt a"
  by (simp add: cmpResource_def)

lemma cmpNote_le: "cmpNote a b \<le> 0 \<longleftrightarrow> n_createdAt b \<le> n_createdAt a"
  by (simp add: cmpNote_def)

lemma cmpTodo_le: "cmpTodo a b \<le> 0 \<longleftrightarrow> todo_order a b"
  by (auto simp: cmpTodo_def orElse_def Number_def todo_order_def)

lemma cmpEvent_le:
  "valid_date getTime a \<Longrightarrow> valid_date getTime b \<Longrightarrow>
   cmpEvent getTime a b \<le> 0 \<longleftrightarrow> event_order getTime a b"
  by (auto simp: cmpEvent_def orElse_def subNaN_def event_order_def valid_date_def
      split: if_splits)

lemma consistent_cmpHighlight: "consistent_on UNIV cmpHighlight"
  unfolding consistent_on_def cmpHighlight_le by auto

lemma consistent_cmpResource: "consistent_on UNIV cmpResource"
  unfolding consistent_on_def cmpResource_le by auto

lemma consistent_cmpNote: "consistent_on UNIV cmpNote"
  unfolding consistent_on_def cmpNote_le by auto

lemma consistent_cmpTodo: "consistent_on UNIV cmpTodo"
  unfolding consistent_on_def cmpTodo_le todo_order_def by auto

lemma consistent_cmpEvent: "consistent_on {e. valid_date getTime e} (cmpEvent getTime)"
  unfolding consistent_on_def
  by (auto simp: cmpEvent_le event_order_def valid_date_def)

section \<open>Add followed by delete\<close>

lemma filter_sortBy_fresh:
  assumes c: "consistent_on A cmp" and sub: "set xs \<subseteq> A" and x: "x \<in> A"
    and fresh: "f x \<notin> set (map f xs)"
  shows "filter (\<lambda>y. f y \<noteq> f x) (sortBy cmp (xs @ [x])) = sortBy cmp xs"
proof -
  have "filter (\<lambda>y. f y \<noteq> f x) (sortBy cmp (xs @ [x])) =
          sortBy cmp (filter (\<lambda>y. f y \<noteq> f x) (xs @ [x]))"
    using sub x by (intro filter_sortBy [OF c]) simp
  also have "filter (\<lambda>y. f y \<noteq> f x) (xs @ [x]) = xs"
    using filter_absent_id [OF fresh] by simp
  finally show ?thesis .
qed

lemma round_trip_highlights:
  assumes "newId \<notin> set (map h_id (highlights s))"
  shows "highlights (deleteHighlight newId (addHighlight newId now txt datetime color s)) =
         sortBy cmpHighlight (highlights s)"
  using filter_sortBy_fresh [OF consistent_cmpHighlight, where f = h_id and xs = "highlights s"
      and x = "\<lparr>h_id = newId, h_text = txt, h_datetime = datetime, h_color = color,
                 h_createdAt = now\<rparr>"] assms
  by (simp add: deleteHighlight_def addHighlight_def Let_def)

lemma round_trip_todos:
  assumes "newId \<notin> set (map t_id (todos s))"
  shows "todos (deleteTodo newId (addTodo newId now txt color s)) = sortBy cmpTodo (todos s)"
  using filter_sortBy_fresh [OF consistent_cmpTodo, where f = t_id and xs = "todos s"
      and x = "\<lparr>t_id = newId, t_text = txt, t_completed = False, t_color = color,
                 t_createdAt = now\<rparr>"] assms
  by (simp add: deleteTodo_def addTodo_def Let_def)

lemma round_trip_resources:
  assumes "newId \<notin> set (map r_id (resources s))"
  shows "resources (deleteResource newId (addResource newId now name type content color s)) =
         sortBy cmpResource (resources s)"
  using filter_sortBy_fresh [OF consistent_cmpResource, where f = r_id and xs = "resources s"
      and x = "\<lparr>r_id = newId, r_name = name, r_type = type, r_content = content,
                 r_color = color, r_createdAt = now\<rparr>"] assms
  by (simp add: deleteResource_def addResource_def Let_def)

lemma round_trip_notes:
  assumes "newId \<notin> set (map n_id (ideapadNotes s))"
  shows "ideapadNotes (deleteIdeapadNote newId (addIdeapadNote newId now txt color s)) =
         sortBy cmpNote (ideapadNotes s)"
  using filter_sortBy_fresh [OF consistent_cmpNote, where f = n_id and xs = "ideapadNotes s"
      and x = "\<lparr>n_id = newId, n_text = txt, n_createdAt = now, n_color = color\<rparr>"] assms
  by (simp add: deleteIdeapadNote_def addIdeapadNote_def Let_def)

lemma round_trip_events:
  assumes "newId \<notin> set (map e_id (events s))"
    and "list_all (valid_date getTime) (events s)" and "getTime date \<noteq> None"
  shows "events (deleteEvent newId
           (addEvent getTime newId now dflt title date color time rh rr s)) =
         sortBy (cmpEvent getTime) (events s)"
  using filter_sortBy_fresh [OF consistent_cmpEvent, where f = e_id and xs = "events s"
      and getTime1 = getTime
      and x = "\<lparr>e_id = newId, e_title = title, e_date = date,
                 e_time = (case time of None \<Rightarrow> dflt | Some t \<Rightarrow> t), e_color = color,
                 relatedHighlightId = rh, relatedResourceId = rr, e_createdAt = now\<rparr>"] assms
  by (simp add: deleteEvent_def addEvent_def Let_def list_all_iff subset_iff valid_date_def)

lemma round_trip_events_mset:
  assumes "newId \<notin> set (map e_id (events s))"
  shows "mset (events (deleteEvent newId
           (addEvent getTime newId now dflt title date color time rh rr s))) =
         mset (events s)"
proof -
  have "filter_mset (\<lambda>e. e_id e \<noteq> newId) (mset (events s)) = mset (events s)"
    using filter_absent_id [OF assms] by (metis mset_filter)
  then show ?thesis
    by (simp add: deleteEvent_def addEvent_def Let_def mset_sortBy)
qed

text \<open>
  Claim C6. In each collection, an add followed by the delete of the id that
  the add produced gives the collection as it was before the add, sorted
  again: the result is the sort of the previous collection under the
  collection's comparator. The produced id is fresh: no entity of the
  collection has it. For the events the sort is the one fixed by the language
  when the dates are dates; whatever the dates are, the events after are the
  events before, each as often as before.
\<close>

theorem add_then_delete_round_trip:
  "(newId \<notin> set (map h_id (highlights s)) \<longrightarrow>
      highlights (deleteHighlight newId (addHighlight newId now txt datetime color s)) =
      sortBy cmpHighlight (highlights s)) \<and>
   (newId \<notin> set (map t_id (todos s)) \<longrightarrow>
      todos (deleteTodo newId (addTodo newId now txt color s)) = sortBy cmpTodo (todos s)) \<and>
   (newId \<notin> set (map e_id (events s)) \<longrightarrow>
      mset (events (deleteEvent newId
        (addEvent getTime newId now dflt title date color time rh rr s))) =
      mset (events s)) \<and>
   (newId \<notin> set (map e_id (events s)) \<and> list_all (valid_date getTime) (events s) \<and>
    getTime date \<noteq> None \<longrightarrow>
      events (deleteEvent newId
        (addEvent getTime newId now dflt title date color time rh rr s)) =
      sortBy (cmpEvent getTime) (events s)) \<and>
   (newId \<notin> set (map r_id (resources s)) \<longrightarrow>
      resources (deleteResource newId (addResource newId now name type content color s)) =
      sortBy cmpResource (resources s)) \<and>
   (newId \<notin> set (map n_id (ideapadNotes s)) \<longrightarrow>
      ideapadNotes (deleteIdeapadNote newId (addIdeapadNote newId now txt color s)) =
      sortBy cmpNote (ideapadNotes s))"
  using round_trip_highlights [of newId s now "txt" datetime color]
    round_trip_todos [of newId s now "txt" color]
    round_trip_events_mset [of newId s getTime now dflt title date color time rh rr]
    round_trip_events [of newId s getTime date now dflt title color time rh rr]
    round_trip_resources [of newId s now name "type" content color]
    round_trip_notes [of newId s now "txt" color]
  by blast

theorem add_then_delete_round_trip_witness:
  "js ''x9'' \<notin> set (map h_id (highlights sample_state)) \<and>
   js ''x9'' \<notin> set (map t_id (todos sample_state)) \<and>
   js ''x9'' \<notin> set (map e_id (events sample_state)) \<and>
   js ''x9'' \<notin> set (map r_id (resources sample_state)) \<and>
   js ''x9'' \<notin> set (map n_id (ideapadNotes sample_state)) \<and>
   list_all (valid_date sample_getTime) (events sample_state) \<and>
   sample_getTime (js ''2024-05-01'') \<noteq> None \<and>
   highlights (deleteHighlight (js ''x9'')
     (addHighlight (js ''x9'') 500 (js ''a'') (js ''d'') (js ''c'') sample_state)) =
     highlights sample_state \<and>
   todos (deleteTodo (js ''x9'') (addTodo (js ''x9'') 500 (js ''a'') (js ''c'') sample_state)) =
     todos sample_state \<and>
   events (deleteEvent (js ''x9'')
     (addEvent sample_getTime (js ''x9'') 500 0 (js ''t'') (js ''2024-05-01'') (js ''c'') None
        None None sample_state)) = events sample_state \<and>
   resources (deleteResource (js ''x9'')
     (addResource (js ''x9'') 500 (js ''n'') Note (js ''b'') (js ''c'') sample_state)) =
     resources sample_state \<and>
   ideapadNotes (deleteIdeapadNote (js ''x9'')
     (addIdeapadNote (js ''x9'') 500 (js ''a'') (js ''c'') sample_state)) =
     ideapadNotes sample_state"
  using add_then_delete_round_trip [of "js ''x9''" sample_state 500 "js ''a''" "js ''d''"
      "js ''c''" sample_getTime 0 "js ''t''" "js ''2024-05-01''" None None None "js ''n''"
      Note "js ''b''"]
  by (simp add: sample_defs valid_date_def cmpEvent_def subNaN_def orElse_def)

section \<open>The display order is an invariant\<close>

lemma newest_first_sortBy_highlights: "newest_first h_createdAt (sortBy cmpHighlight xs)"
  using sorted_sortBy [OF consistent_cmpHighlight, of xs]
  by (simp add: newest_first_def cmpHighlight_le)

lemma newest_first_sortBy_resources: "newest_first r_createdAt (sortBy cmpResource xs)"
  using sorted_sortBy [OF consistent_cmpResource, of xs]
  by (simp add: newest_first_def cmpResource_le)

lemma newest_first_sortBy_notes: "newest_first n_createdAt (sortBy cmpNote xs)"
  using sorted_sortBy [OF consistent_cmpNote, of xs]
  by (simp add: newest_first_def cmpNote_le)

lemma todo_order_sortBy: "sorted_wrt todo_order (sortBy cmpTodo xs)"
  using sorted_sortBy [OF consistent_cmpTodo, of xs]
  by (simp add: cmpTodo_le)

lemma event_order_sortBy:
  assumes "list_all (valid_date getTime) xs"
  shows "sorted_wrt (event_order getTime) (sortBy (cmpEvent getTime) xs)"
proof -
  have sub: "set xs \<subseteq> {e. valid_date getTime e}"
    using assms by (auto simp: list_all_iff)
  have "sorted_wrt (\<lambda>a b. cmpEvent getTime a b \<le> 0) (sortBy (cmpEvent getTime) xs)"
    by (rule sorted_sortBy [OF consistent_cmpEvent sub])
  then show ?thesis
  proof (rule sorted_wrt_mono_rel [rotated])
    fix a b
    assume "a \<in> set (sortBy (cmpEvent getTime) xs)" "b \<in> set (sortBy (cmpEvent getTime) xs)"
      and le: "cmpEvent getTime a b \<le> 0"
    then have "valid_date getTime a" "valid_date getTime b"
      using sub by (auto simp: set_sortBy)
    with le show "event_order getTime a b"
      by (simp add: cmpEvent_le)
  qed
qed

lemma newest_first_filter: "newest_first f xs \<Longrightarrow> newest_first f (filter P xs)"
  by (simp add: newest_first_def sorted_wrt_filter)

lemma list_all_sortBy: "list_all P (sortBy cmp xs) = list_all P xs"
  by (simp add: list_all_iff set_sortBy)

lemma perform_keeps_display_order:
  assumes inv: "sort_invariants getTime s"
    and dates: "list_all (valid_date getTime) (events s)"
    and ok: "valid_operation getTime op"
  shows "sort_invariants getTime (perform getTime op s) \<and>
         list_all (valid_date getTime) (events (perform getTime op s))"
proof (cases op)
  case (AddHighlight newId now body datetime color)
  with inv dates show ?thesis
    by (simp add: sort_invariants_def addHighlight_def Let_def newest_first_sortBy_highlights)
next
  case (DeleteHighlight i)
  with inv dates show ?thesis
    by (simp add: sort_invariants_def deleteHighlight_def newest_first_filter
        sorted_wrt_filter list_all_iff)
next
  case (AddTodo newId now body color)
  with inv dates show ?thesis
    by (simp add: sort_invariants_def addTodo_def Let_def todo_order_sortBy)
next
  case (ToggleTodo i)
  with inv dates show ?thesis
    by (simp add: sort_invariants_def toggleTodo_def todo_order_sortBy)
next
  case (DeleteTodo i)
  with inv dates show ?thesis
    by (simp add: sort_invariants_def deleteTodo_def sorted_wrt_filter)
next
  case (AddEvent newId now dflt title date color time rh rr)
  let ?e = "\<lparr>e_id = newId, e_title = title, e_date = date,
             e_time = (case time of None \<Rightarrow> dflt | Some t \<Rightarrow> t), e_color = color,
             relatedHighlightId = rh, relatedResourceId = rr, e_createdAt = now\<rparr>"
  have all: "list_all (valid_date getTime) (events s @ [?e])"
    using dates ok AddEvent by (simp add: valid_date_def)
  have "sorted_wrt (event_order getTime) (sortBy (cmpEvent getTime) (events s @ [?e]))"
    by (rule event_order_sortBy [OF all])
  moreover have "list_all (valid_date getTime) (sortBy (cmpEvent getTime) (events s @ [?e]))"
    using all by (simp only: list_all_sortBy)
  ultimately show ?thesis
    using inv AddEvent by (simp add: sort_invariants_def addEvent_def Let_def)
next
  case (DeleteEvent i)
  with inv dates show ?thesis
    by (simp add: sort_invariants_def deleteEvent_def sorted_wrt_filter list_all_iff)
next
  case (AddResource newId now name kind content color)
  with inv dates show ?thesis
    by (simp add: sort_invariants_def addResource_def Let_def newest_first_sortBy_resources)
next
  case (DeleteResource i)
  with inv dates show ?thesis
    by (simp add: sort_invariants_def deleteResource_def newest_first_filter
        sorted_wrt_filter list_all_iff)
next
  case (AddIdeapadNote newId now body color)
  with inv dates show ?thesis
    by (simp add: sort_invariants_def addIdeapadNote_def Let_def newest_first_sortBy_notes)
next
  case (DeleteIdeapadNote i)
  with inv dates show ?thesis
    by (simp add: sort_invariants_def deleteIdeapadNote_def newest_first_filter)
qed

lemma run_keeps_display_order:
  "sort_invariants getTime s \<Longrightarrow> list_all (valid_date getTime) (events s) \<Longrightarrow>
   list_all (valid_operation getTime) ops \<Longrightarrow>
   sort_invariants getTime (run getTime ops s) \<and>
   list_all (valid_date getTime) (events (run getTime ops s))"
proof (induction ops arbitrary: s)
  case Nil
  then show ?case by simp
next
  case (Cons op ops)
  have step: "sort_invariants getTime (perform getTime op s) \<and>
              list_all (valid_date getTime) (events (perform getTime op s))"
    using Cons.prems by (intro perform_keeps_display_order) simp_all
  show ?case
    using Cons.IH [of "perform getTime op s"] step Cons.prems by simp
qed

lemma sort_invariants_initial: "sort_invariants getTime initial_state"
  by (simp add: sort_invariants_def initial_state_def newest_first_def)

lemma perform_keeps_other_orders:
  assumes "newest_first h_createdAt (highlights s) \<and> sorted_wrt todo_order (todos s) \<and>
           newest_first r_createdAt (resources s) \<and>
           newest_first n_createdAt (ideapadNotes s)"
  shows "newest_first h_createdAt (highlights (perform getTime op s)) \<and>
         sorted_wrt todo_order (todos (perform getTime op s)) \<and>
         newest_first r_createdAt (resources (perform getTime op s)) \<and>
         newest_first n_createdAt (ideapadNotes (perform getTime op s))"
proof (cases op)
  case (AddHighlight newId now body datetime color)
  with assms show ?thesis
    by (simp add: addHighlight_def Let_def newest_first_sortBy_highlights)
next
  case (DeleteHighlight i)
  with assms show ?thesis
    by (simp add: deleteHighlight_def newest_first_filter)
next
  case (AddTodo newId now body color)
  with assms show ?thesis
    by (simp add: addTodo_def Let_def todo_order_sortBy)
next
  case (ToggleTodo i)
  with assms show ?thesis
    by (simp add: toggleTodo_def todo_order_sortBy)
next
  case (DeleteTodo i)
  with assms show ?thesis
    by (simp add: deleteTodo_def sorted_wrt_filter)
next
  case (AddEvent newId now dflt title date color time rh rr)
  with assms show ?thesis
    by (simp add: addEvent_def Let_def)
next
  case (DeleteEvent i)
  with assms show ?thesis
    by (simp add: deleteEvent_def)
next
  case (AddResource newId now name kind content color)
  with assms show ?thesis
    by (simp add: addResource_def Let_def newest_first_sortBy_resources)
next
  case (DeleteResource i)
  with assms show ?thesis
    by (simp add: deleteResource_def newest_first_filter)
next
  case (AddIdeapadNote newId now body color)
  with assms show ?thesis
    by (simp add: addIdeapadNote_def Let_def newest_first_sortBy_notes)
next
  case (DeleteIdeapadNote i)
  with assms show ?thesis
    by (simp add: deleteIdeapadNote_def newest_first_filter)
qed

lemma run_keeps_other_orders:
  "newest_first h_createdAt (highlights s) \<and> sorted_wrt todo_order (todos s) \<and>
   newest_first r_createdAt (resources s) \<and> newest_first n_createdAt (ideapadNotes s) \<Longrightarrow>
   newest_first h_createdAt (highlights (run getTime ops s)) \<and>
   sorted_wrt todo_order (todos (run getTime ops s)) \<and>
   newest_first r_createdAt (resources (run getTime ops s)) \<and>
   newest_first n_createdAt (ideapadNotes (run getTime ops s))"
proof (induction ops arbitrary: s)
  case Nil
  then show ?case by simp
next
  case (Cons op ops)
  show ?case
    using Cons.IH [OF perform_keeps_other_orders [OF Cons.prems, of getTime op]] by simp
qed

text \<open>
  Claim C4, as stated, fails for the events. \<open>addEvent\<close> accepts any string as
  a date. The state with the single event \<open>undated\<close>, whose date string is not
  a date, is in display order; the add of an event with a date puts the new
  event before it, and the two are not in ascending order of date, the date
  of one of them being no date. The same state of the events is reached from
  the empty collections by two adds.
\<close>

theorem display_order_broken_by_undated_event:
  "sort_invariants sample_getTime undated_state \<and>
   events (run sample_getTime
     [AddEvent (js ''e3'') 320 0 (js ''Lunch'') (js ''2024-05-01'') (js ''bg-red-200'') None
        None None] undated_state) = [lunch, undated] \<and>
   \<not> sort_invariants sample_getTime (run sample_getTime
     [AddEvent (js ''e3'') 320 0 (js ''Lunch'') (js ''2024-05-01'') (js ''bg-red-200'') None
        None None] undated_state) \<and>
   sort_invariants sample_getTime initial_state \<and>
   events (run sample_getTime
     [AddEvent (js ''e0'') 100 0 (js ''Someday'') (js ''someday'') (js ''bg-blue-200'') None
        None None,
      AddEvent (js ''e3'') 320 0 (js ''Lunch'') (js ''2024-05-01'') (js ''bg-red-200'') None
        None None] initial_state) = [lunch, undated] \<and>
   \<not> sort_invariants sample_getTime (run sample_getTime
     [AddEvent (js ''e0'') 100 0 (js ''Someday'') (js ''someday'') (js ''bg-blue-200'') None
        None None,
      AddEvent (js ''e3'') 320 0 (js ''Lunch'') (js ''2024-05-01'') (js ''bg-red-200'') None
        None None] initial_state)"
  by (simp add: sort_invariants_def newest_first_def event_order_def addEvent_def Let_def
      cmpEvent_def subNaN_def orElse_def undated_state_def undated_def lunch_def
      sample_getTime_def js_def initial_state_def)

text \<open>
  Claim C4, amended. Starting from collections that are in their display
  order (the empty collections are), every finite sequence of add, delete and
  toggle operations ends with the highlights, resources and ideapad notes
  newest first and the todos incomplete before complete, newest first within
  each group. When the date string of every event present at the start and of
  every event added is a date, the events end in ascending order of date,
  newest first within a date, as well. Since every prefix of a sequence of
  operations is one, this holds after every single mutation.
\<close>

theorem display_order_invariant:
  assumes "sort_invariants getTime s"
  shows "newest_first h_createdAt (highlights (run getTime ops s)) \<and>
         sorted_wrt todo_order (todos (run getTime ops s)) \<and>
         newest_first r_createdAt (resources (run getTime ops s)) \<and>
         newest_first n_createdAt (ideapadNotes (run getTime ops s)) \<and>
         (list_all (valid_date getTime) (events s) \<and>
          list_all (valid_operation getTime) ops \<longrightarrow>
            sort_invariants getTime (run getTime ops s))"
proof -
  have others:
    "newest_first h_createdAt (highlights s) \<and> sorted_wrt todo_order (todos s) \<and>
     newest_first r_createdAt (resources s) \<and> newest_first n_createdAt (ideapadNotes s)"
    using assms by (simp add: sort_invariants_def)
  show ?thesis
    using run_keeps_other_orders [OF others, of getTime ops]
      run_keeps_display_order [OF assms, of ops]
    by blast
qed

theorem display_order_invariant_witness:
  "sort_invariants sample_getTime sample_state \<and>
   list_all (valid_date sample_getTime) (events sample_state) \<and>
   list_all (valid_operation sample_getTime)
     [AddTodo (js ''t2'') 310 (js ''call'') (js ''bg-red-200''),
      ToggleTodo (js ''t2''),
      AddEvent (js ''e3'') 320 0 (js ''Lunch'') (js ''2024-05-01'') (js ''bg-red-200'') None
        None None,
      AddHighlight (js ''h2'') 330 (js ''note'') (js ''2024-05-02T10:00:00.000Z'')
        (js ''bg-red-200''),
      DeleteResource (js ''r1'')] \<and>
   sort_invariants sample_getTime
     (run sample_getTime
        [AddTodo (js ''t2'') 310 (js ''call'') (js ''bg-red-200''),
         ToggleTodo (js ''t2''),
         AddEvent (js ''e3'') 320 0 (js ''Lunch'') (js ''2024-05-01'') (js ''bg-red-200'') None
           None None,
         AddHighlight (js ''h2'') 330 (js ''note'') (js ''2024-05-02T10:00:00.000Z'')
           (js ''bg-red-200''),
         DeleteResource (js ''r1'')]
        sample_state) \<and>
   events (run sample_getTime
        [AddTodo (js ''t2'') 310 (js ''call'') (js ''bg-red-200''),
         ToggleTodo (js ''t2''),
         AddEvent (js ''e3'') 320 0 (js ''Lunch'') (js ''2024-05-01'') (js ''bg-red-200'') None
           None None,
         AddHighlight (js ''h2'') 330 (js ''note'') (js ''2024-05-02T10:00:00.000Z'')
           (js ''bg-red-200''),
         DeleteResource (js ''r1'')]
        sample_state) = [lunch, meeting]"
proof -
  have inv: "sort_invariants sample_getTime sample_state"
    by (simp add: sort_invariants_def newest_first_def event_order_def sample_defs)
  have dates: "list_all (valid_date sample_getTime) (events sample_state)"
    by (simp add: valid_date_def sample_defs)
  have ops: "list_all (valid_operation sample_getTime)
     [AddTodo (js ''t2'') 310 (js ''call'') (js ''bg-red-200''),
      ToggleTodo (js ''t2''),
      AddEvent (js ''e3'') 320 0 (js ''Lunch'') (js ''2024-05-01'') (js ''bg-red-200'') None
        None None,
      AddHighlight (js ''h2'') 330 (js ''note'') (js ''2024-05-02T10:00:00.000Z'')
        (js ''bg-red-200''),
      DeleteResource (js ''r1'')]"
    by (simp add: sample_defs)
  have evs: "events (run sample_getTime
        [AddTodo (js ''t2'') 310 (js ''call'') (js ''bg-red-200''),
         ToggleTodo (js ''t2''),
         AddEvent (js ''e3'') 320 0 (js ''Lunch'') (js ''2024-05-01'') (js ''bg-red-200'') None
           None None,
         AddHighlight (js ''h2'') 330 (js ''note'') (js ''2024-05-02T10:00:00.000Z'')
           (js ''bg-red-200''),
         DeleteResource (js ''r1'')]
        sample_state) = [lunch, meeting]"
    by (simp add: addTodo_def toggleTodo_def addEvent_def addHighlight_def deleteResource_def
        Let_def cmpEvent_def subNaN_def orElse_def lunch_def sample_defs)
  show ?thesis
    using display_order_invariant [OF inv, of "[AddTodo (js ''t2'') 310 (js ''call'') (js ''bg-red-200''),
         ToggleTodo (js ''t2''),
         AddEvent (js ''e3'') 320 0 (js ''Lunch'') (js ''2024-05-01'') (js ''bg-red-200'') None
           None None,
         AddHighlight (js ''h2'') 330 (js ''note'') (js ''2024-05-02T10:00:00.000Z'')
           (js ''bg-red-200''),
         DeleteResource (js ''r1'')]"] inv dates ops evs
    by blast
qed

section \<open>Loading\<close>

lemma andThen_simps [simp]:
  "andThen (Inl e) f = Inl e"
  "andThen (Inr v) f = f v"
  by (simp_all add: andThen_def)

lemma load_result:
  "load st initial_state =
     (if fails (appData_highlights st) \<or> fails (appData_todos st) \<or>
         fails (appData_events st) \<or> fails (appData_resources st) \<or>
         fails (appData_ideapadNotes st)
      then initial_state
      else \<lparr>highlights = contents (appData_highlights st),
            todos = contents (appData_todos st),
            events = contents (appData_events st),
            resources = contents (appData_resources st),
            ideapadNotes = contents (appData_ideapadNotes st)\<rparr>)"
proof -
  obtain h t e r n where st:
    "appData_highlights st = h" "appData_todos st = t" "appData_events st = e"
    "appData_resources st = r" "appData_ideapadNotes st = n"
    by simp
  show ?thesis
    unfolding load_def try_load_def st initial_state_def
    by (cases h rule: fails.cases; cases t rule: fails.cases; cases e rule: fails.cases;
        cases r rule: fails.cases; cases n rule: fails.cases) simp_all
qed

text \<open>
  Claim C7, as stated, fails: with a sound highlights document and a todos
  document that is not valid JSON, the highlights are not hydrated from their
  document. All five collections are empty after the load.
\<close>

theorem load_failure_is_global:
  "appData_highlights corrupt_todos_storage = Item (Parsed [sample_highlight]) \<and>
   highlights (load corrupt_todos_storage initial_state) \<noteq> [sample_highlight] \<and>
   load corrupt_todos_storage initial_state = initial_state"
  by (simp add: load_def try_load_def corrupt_todos_storage_def initial_state_def)

text \<open>
  Claim C7, amended. A document that is missing (\<open>null\<close> or empty) makes only
  its own collection start empty, and the other collections are hydrated from
  their documents, as long as no read throws and no document fails to parse.
  When any read throws or any document fails to parse, all five collections
  start empty.
\<close>

theorem load_all_or_nothing:
  "(fails (appData_highlights st) \<or> fails (appData_todos st) \<or>
    fails (appData_events st) \<or> fails (appData_resources st) \<or>
    fails (appData_ideapadNotes st) \<longrightarrow>
      load st initial_state = initial_state) \<and>
   (\<not> (fails (appData_highlights st) \<or> fails (appData_todos st) \<or>
       fails (appData_events st) \<or> fails (appData_resources st) \<or>
       fails (appData_ideapadNotes st)) \<longrightarrow>
      highlights (load st initial_state) = contents (appData_highlights st) \<and>
      todos (load st initial_state) = contents (appData_todos st) \<and>
      events (load st initial_state) = contents (appData_events st) \<and>
      resources (load st initial_state) = contents (appData_resources st) \<and>
      ideapadNotes (load st initial_state) = contents (appData_ideapadNotes st))"
  by (simp add: load_result)

theorem load_all_or_nothing_witness:
  "fails (appData_todos corrupt_todos_storage) \<and>
   load corrupt_todos_storage initial_state = initial_state \<and>
   \<not> (fails (appData_highlights missing_todos_storage) \<or>
      fails (appData_todos missing_todos_storage) \<or>
      fails (appData_events missing_todos_storage) \<or>
      fails (appData_resources missing_todos_storage) \<or>
      fails (appData_ideapadNotes missing_todos_storage)) \<and>
   highlights (load missing_todos_storage initial_state) = [sample_highlight] \<and>
   todos (load missing_todos_storage initial_state) = [] \<and>
   events (load missing_todos_storage initial_state) = [meeting, reading] \<and>
   resources (load missing_todos_storage initial_state) = [sample_resource] \<and>
   ideapadNotes (load missing_todos_storage initial_state) = [sample_note]"
proof -
  have bad: "fails (appData_todos corrupt_todos_storage)"
    by (simp add: corrupt_todos_storage_def)
  have good:
    "\<not> (fails (appData_highlights missing_todos_storage) \<or>
        fails (appData_todos missing_todos_storage) \<or>
        fails (appData_events missing_todos_storage) \<or>
        fails (appData_resources missing_todos_storage) \<or>
        fails (appData_ideapadNotes missing_todos_storage))"
    by (simp add: missing_todos_storage_def)
  have docs:
    "contents (appData_highlights missing_todos_storage) = [sample_highlight]"
    "contents (appData_todos missing_todos_storage) = []"
    "contents (appData_events missing_todos_storage) = [meeting, reading]"
    "contents (appData_resources missing_todos_storage) = [sample_resource]"
    "contents (appData_ideapadNotes missing_todos_storage) = [sample_note]"
    by (simp_all add: missing_todos_storage_def)
  show ?thesis
    using load_all_or_nothing [of corrupt_todos_storage]
      load_all_or_nothing [of missing_todos_storage] bad good docs
    by simp
qed

section \<open>Import\<close>

lemma import_read_error:
  "handleImport parse onImport ReadError st = st\<lparr>error := Some ReadFailed\<rparr>"
  by (simp add: handleImport_def)

text \<open>
  Claim C8, as stated, fails in its second half: the call of the callback
  stands inside the \<open>try\<close> block. The text \<open>{"todos":[]}\<close> parses, the
  document is handed to the callback, the callback throws, and the error
  message is not cleared: the message for data that is not valid JSON is set.
\<close>

theorem import_error_not_cleared_when_callback_throws:
  "sample_parse todos_document =
     Some \<lparr>d_highlights = None, d_todos = Some [], d_events = None, d_resources = None,
           d_ideapadNotes = None\<rparr> \<and>
   error (handleImport sample_parse throwing_callback (Loaded (Text todos_document))
            \<lparr>app = sample_state, error = None\<rparr>) = Some InvalidFormat \<and>
   error (handleImport sample_parse throwing_callback (Loaded (Text todos_document))
            \<lparr>app = sample_state, error = None\<rparr>) \<noteq> None"
  by (simp add: handleImport_def onload_def sample_parse_def throwing_callback_def)

text \<open>
  Claim C8, amended. When the text of the uploaded file is not valid JSON, the
  import leaves the five collections as they were, whatever the callback is
  (it is not invoked: any other callback gives the same result), and sets the
  error message. When the text parses, the parsed document is handed to the
  callback, whose effect is the new application state; the error message is
  cleared when the callback returns, and the message for data that is not
  valid JSON is set when the callback throws.
\<close>

theorem import_outcomes:
  "(parse t = None \<longrightarrow>
      app (handleImport parse onImport (Loaded (Text t)) st) = app st \<and>
      error (handleImport parse onImport (Loaded (Text t)) st) = Some InvalidFormat \<and>
      handleImport parse onImport (Loaded (Text t)) st =
        handleImport parse otherCallback (Loaded (Text t)) st) \<and>
   (parse t = Some d \<and> onImport d (app st) = Returned a \<longrightarrow>
      app (handleImport parse onImport (Loaded (Text t)) st) = a \<and>
      error (handleImport parse onImport (Loaded (Text t)) st) = None) \<and>
   (parse t = Some d \<and> onImport d (app st) = Thrown a \<longrightarrow>
      app (handleImport parse onImport (Loaded (Text t)) st) = a \<and>
      error (handleImport parse onImport (Loaded (Text t)) st) = Some InvalidFormat)"
  by (simp add: handleImport_def onload_def)

theorem import_outcomes_witness:
  "sample_parse (js ''{'') = None \<and>
   handleImport sample_parse replace_collections (Loaded (Text (js ''{'')))
     \<lparr>app = sample_state, error = None\<rparr> =
     \<lparr>app = sample_state, error = Some InvalidFormat\<rparr> \<and>
   sample_parse todos_document =
     Some \<lparr>d_highlights = None, d_todos = Some [], d_events = None, d_resources = None,
           d_ideapadNotes = None\<rparr> \<and>
   replace_collections
     \<lparr>d_highlights = None, d_todos = Some [], d_events = None, d_resources = None,
      d_ideapadNotes = None\<rparr> sample_state = Returned (sample_state\<lparr>todos := []\<rparr>) \<and>
   handleImport sample_parse replace_collections (Loaded (Text todos_document))
     \<lparr>app = sample_state, error = Some ReadFailed\<rparr> =
     \<lparr>app = sample_state\<lparr>todos := []\<rparr>, error = None\<rparr> \<and>
   throwing_callback
     \<lparr>d_highlights = None, d_todos = Some [], d_events = None, d_resources = None,
      d_ideapadNotes = None\<rparr> sample_state = Thrown sample_state \<and>
   handleImport sample_parse throwing_callback (Loaded (Text todos_document))
     \<lparr>app = sample_state, error = None\<rparr> =
     \<lparr>app = sample_state, error = Some InvalidFormat\<rparr>"
proof -
  have bad: "sample_parse (js ''{'') = None"
    by (simp add: sample_parse_def todos_document_def js_def)
  have good: "sample_parse todos_document =
     Some \<lparr>d_highlights = None, d_todos = Some [], d_events = None, d_resources = None,
           d_ideapadNotes = None\<rparr>"
    by (simp add: sample_parse_def)
  have cb: "replace_collections
     \<lparr>d_highlights = None, d_todos = Some [], d_events = None, d_resources = None,
      d_ideapadNotes = None\<rparr> sample_state = Returned (sample_state\<lparr>todos := []\<rparr>)"
    by (simp add: replace_collections_def sample_state_def)
  have th: "throwing_callback
     \<lparr>d_highlights = None, d_todos = Some [], d_events = None, d_resources = None,
      d_ideapadNotes = None\<rparr> sample_state = Thrown sample_state"
    by (simp add: throwing_callback_def)
  have r1: "handleImport sample_parse replace_collections (Loaded (Text (js ''{'')))
     \<lparr>app = sample_state, error = None\<rparr> =
     \<lparr>app = sample_state, error = Some InvalidFormat\<rparr>"
    using import_outcomes [of sample_parse "js ''{''" replace_collections
        "\<lparr>app = sample_state, error = None\<rparr>" replace_collections] bad
    by (intro import_state.equality) simp_all
  have r2: "handleImport sample_parse replace_collections (Loaded (Text todos_document))
     \<lparr>app = sample_state, error = Some ReadFailed\<rparr> =
     \<lparr>app = sample_state\<lparr>todos := []\<rparr>, error = None\<rparr>"
    using import_outcomes [of sample_parse todos_document replace_collections
        "\<lparr>app = sample_state, error = Some ReadFailed\<rparr>" replace_collections
        "\<lparr>d_highlights = None, d_todos = Some [], d_events = None, d_resources = None,
          d_ideapadNotes = None\<rparr>" "sample_state\<lparr>todos := []\<rparr>"] good cb
    by (intro import_state.equality) simp_all
  have r3: "handleImport sample_parse throwing_callback (Loaded (Text todos_document))
     \<lparr>app = sample_state, error = None\<rparr> =
     \<lparr>app = sample_state, error = Some InvalidFormat\<rparr>"
    using import_outcomes [of sample_parse todos_document throwing_callback
        "\<lparr>app = sample_state, error = None\<rparr>" throwing_callback
        "\<lparr>d_highlights = None, d_todos = Some [], d_events = None, d_resources = None,
          d_ideapadNotes = None\<rparr>" sample_state] good th
    by (intro import_state.equality) simp_all
  from bad good cb th r1 r2 r3 show ?thesis by simp
qed

end
